theory Spec2Isabelle
  imports Complex_Main
begin

section \<open>JavaScript numbers\<close>

text \<open>
  The program computes with JavaScript Numbers. They are modelled as the real numbers
  extended with the three special values of IEEE 754 that decide the control flow of the
  program: \<open>NaN\<close> and the two infinities. Finite values are exact reals: the rounding of
  double precision, overflow to infinity and the sign of zero are not part of this model.
  Where rounding decides a property, the Julian-day round trip, the functions concerned
  are modelled a second time with every operator rounded to binary64 (see the section on
  double precision).
  The special cases of every operator follow ECMAScript (\<open>Number::add\<close>,
  \<open>Number::multiply\<close>, \<open>Number::divide\<close>, \<open>Number::remainder\<close>, \<open>Number::lessThan\<close>).
\<close>

datatype jsnum = Fin real | PInf | NInf | NaN

fun js_neg :: "jsnum \<Rightarrow> jsnum" where
  "js_neg (Fin x) = Fin (- x)"
| "js_neg PInf = NInf"
| "js_neg NInf = PInf"
| "js_neg NaN = NaN"

fun js_add :: "jsnum \<Rightarrow> jsnum \<Rightarrow> jsnum" where
  "js_add NaN _ = NaN"
| "js_add _ NaN = NaN"
| "js_add (Fin x) (Fin y) = Fin (x + y)"
| "js_add PInf NInf = NaN"
| "js_add NInf PInf = NaN"
| "js_add PInf _ = PInf"
| "js_add _ PInf = PInf"
| "js_add NInf _ = NInf"
| "js_add _ NInf = NInf"

text \<open>The sign of an infinite product or quotient: \<open>inf_of True\<close> is \<open>+Infinity\<close>.\<close>

definition inf_of :: "bool \<Rightarrow> jsnum" where
  "inf_of positive = (if positive then PInf else NInf)"

fun js_mul :: "jsnum \<Rightarrow> jsnum \<Rightarrow> jsnum" where
  "js_mul NaN _ = NaN"
| "js_mul _ NaN = NaN"
| "js_mul (Fin x) (Fin y) = Fin (x * y)"
| "js_mul (Fin x) PInf = (if x = 0 then NaN else inf_of (0 < x))"
| "js_mul (Fin x) NInf = (if x = 0 then NaN else inf_of (x < 0))"
| "js_mul PInf (Fin y) = (if y = 0 then NaN else inf_of (0 < y))"
| "js_mul NInf (Fin y) = (if y = 0 then NaN else inf_of (y < 0))"
| "js_mul PInf PInf = PInf"
| "js_mul NInf NInf = PInf"
| "js_mul PInf NInf = NInf"
| "js_mul NInf PInf = NInf"

text \<open>
  A finite value divided by zero is infinite, with the sign of the dividend (the zero of
  the model is \<open>+0\<close>); \<open>0 / 0\<close> and \<open>Infinity / Infinity\<close> are \<open>NaN\<close>.
\<close>

fun js_div :: "jsnum \<Rightarrow> jsnum \<Rightarrow> jsnum" where
  "js_div NaN _ = NaN"
| "js_div _ NaN = NaN"
| "js_div (Fin x) (Fin y) =
     (if y = 0 then (if x = 0 then NaN else inf_of (0 < x)) else Fin (x / y))"
| "js_div (Fin x) PInf = Fin 0"
| "js_div (Fin x) NInf = Fin 0"
| "js_div PInf (Fin y) = inf_of (0 \<le> y)"
| "js_div NInf (Fin y) = inf_of (y < 0)"
| "js_div PInf PInf = NaN"
| "js_div PInf NInf = NaN"
| "js_div NInf PInf = NaN"
| "js_div NInf NInf = NaN"

text \<open>Truncation towards zero, as a real number.\<close>

definition trunc :: "real \<Rightarrow> real" where
  "trunc x = (if 0 \<le> x then of_int \<lfloor>x\<rfloor> else of_int \<lceil>x\<rceil>)"

text \<open>
  The operator \<open>%\<close>: the remainder of the truncating division, which has the sign of
  the dividend.
\<close>

fun js_rem :: "jsnum \<Rightarrow> jsnum \<Rightarrow> jsnum" where
  "js_rem NaN _ = NaN"
| "js_rem _ NaN = NaN"
| "js_rem PInf _ = NaN"
| "js_rem NInf _ = NaN"
| "js_rem (Fin x) PInf = Fin x"
| "js_rem (Fin x) NInf = Fin x"
| "js_rem (Fin x) (Fin y) = (if y = 0 then NaN else Fin (x - y * trunc (x / y)))"

text \<open>The relational operators: every comparison with \<open>NaN\<close> is false.\<close>

fun js_lt :: "jsnum \<Rightarrow> jsnum \<Rightarrow> bool" where
  "js_lt NaN _ = False"
| "js_lt _ NaN = False"
| "js_lt (Fin x) (Fin y) = (x < y)"
| "js_lt _ NInf = False"
| "js_lt PInf _ = False"
| "js_lt NInf _ = True"
| "js_lt _ PInf = True"

definition js_gt :: "jsnum \<Rightarrow> jsnum \<Rightarrow> bool" where
  "js_gt a b = js_lt b a"

fun js_le :: "jsnum \<Rightarrow> jsnum \<Rightarrow> bool" where
  "js_le NaN _ = False"
| "js_le _ NaN = False"
| "js_le a b = (\<not> js_lt b a)"

definition js_ge :: "jsnum \<Rightarrow> jsnum \<Rightarrow> bool" where
  "js_ge a b = js_le b a"

text \<open>
  The arithmetic operators of the source are written with the usual symbols. Only the
  syntax is overloaded: no algebraic law is assumed for \<open>jsnum\<close>.
\<close>

instantiation jsnum :: "{plus, minus, uminus, times, inverse}"
begin

definition plus_jsnum :: "jsnum \<Rightarrow> jsnum \<Rightarrow> jsnum" where
  "plus_jsnum a b = js_add a b"

definition minus_jsnum :: "jsnum \<Rightarrow> jsnum \<Rightarrow> jsnum" where
  "minus_jsnum a b = js_add a (js_neg b)"

definition uminus_jsnum :: "jsnum \<Rightarrow> jsnum" where
  "uminus_jsnum a = js_neg a"

definition times_jsnum :: "jsnum \<Rightarrow> jsnum \<Rightarrow> jsnum" where
  "times_jsnum a b = js_mul a b"

definition divide_jsnum :: "jsnum \<Rightarrow> jsnum \<Rightarrow> jsnum" where
  "divide_jsnum a b = js_div a b"

definition inverse_jsnum :: "jsnum \<Rightarrow> jsnum" where
  "inverse_jsnum a = js_div (Fin 1) a"

instance ..

end

subsection \<open>The Math object\<close>

text \<open>
  \<open>Math.sin\<close>, \<open>Math.cos\<close>, \<open>Math.asin\<close> and \<open>Math.acos\<close> are total: they return
  \<open>NaN\<close> for an argument outside their domain and never throw.
\<close>

definition Math_PI :: jsnum where
  "Math_PI = Fin pi"

fun Math_sin :: "jsnum \<Rightarrow> jsnum" where
  "Math_sin (Fin x) = Fin (sin x)"
| "Math_sin _ = NaN"

fun Math_cos :: "jsnum \<Rightarrow> jsnum" where
  "Math_cos (Fin x) = Fin (cos x)"
| "Math_cos _ = NaN"

fun Math_asin :: "jsnum \<Rightarrow> jsnum" where
  "Math_asin (Fin x) = (if - 1 \<le> x \<and> x \<le> 1 then Fin (arcsin x) else NaN)"
| "Math_asin _ = NaN"

fun Math_acos :: "jsnum \<Rightarrow> jsnum" where
  "Math_acos (Fin x) = (if - 1 \<le> x \<and> x \<le> 1 then Fin (arccos x) else NaN)"
| "Math_acos _ = NaN"

subsection \<open>Date objects\<close>

text \<open>
  A Date object holds a time value: an integral number of milliseconds since
  1970-01-01T00:00:00Z of magnitude at most \<open>8.64e15\<close>, or \<open>NaN\<close> (an invalid date).
  \<open>new Date(value)\<close> stores \<open>TimeClip(value)\<close>; a Date used as an operand of an
  arithmetic operator is converted to its time value.
\<close>

datatype jsdate = Date jsnum

fun valueOf :: "jsdate \<Rightarrow> jsnum" where
  "valueOf (Date v) = v"

fun TimeClip :: "jsnum \<Rightarrow> jsnum" where
  "TimeClip (Fin t) = (if \<bar>t\<bar> > 8640000000000000 then NaN else Fin (trunc t))"
| "TimeClip _ = NaN"

definition new_Date :: "jsnum \<Rightarrow> jsdate" where
  "new_Date v = Date (TimeClip v)"

text \<open>
  \<open>new Date(2000, 0, 1, 12)\<close> reads its arguments as local time: the time value is
  \<open>UTC(MakeDate(MakeDay(2000, 0, 1), MakeTime(12, 0, 0, 0)))\<close>, that is the local
  time minus the offset of the host's time zone. The offset (milliseconds east of UTC, at
  that local time) is the parameter \<open>tza\<close>; day 10957 is 2000-01-01.
\<close>

definition new_Date_2000_0_1_12 :: "int \<Rightarrow> jsdate" where
  "new_Date_2000_0_1_12 tza =
     Date (TimeClip (Fin (10957 * 86400000 + 12 * 3600000 - of_int tza)))"

section \<open>SunCalc\<close>

definition toRad :: "jsnum \<Rightarrow> jsnum" where
  "toRad d = (d * Math_PI) / Fin 180"

subsection \<open>getMoonIllumination\<close>

record MoonIllumination =
  fraction :: jsnum
  phase :: jsnum

text \<open>
  The local \<open>d\<close>: the time elapsed since \<open>new Date(2000, 0, 1, 12)\<close>, in days. The
  reference date is built by the local-time constructor, so \<open>d\<close> depends on the time
  zone of the host.
\<close>

definition moon_d :: "int \<Rightarrow> jsdate \<Rightarrow> jsnum" where
  "moon_d tza date = (valueOf date - valueOf (new_Date_2000_0_1_12 tza)) / Fin 86400000"

text \<open>The local \<open>phase\<close> of the source: the phase angle after the double remainder.\<close>

definition moon_phase_angle :: "jsnum \<Rightarrow> jsnum" where
  "moon_phase_angle d =
     (let M = toRad (Fin 357.5291 + Fin 0.98560028 * d);
          ML = toRad (Fin 218.3165 + Fin 13.17639648 * d);
          L2 = toRad (Fin 282.9404 + Fin 0.0000470935 * d);
          eviction = Fin 1.2739 *
            Math_sin (toRad (Fin 2 * ((ML - L2) * Fin 180 / Math_PI))
                      - M * Fin 180 / Math_PI * toRad (Fin 1))
      in js_rem (js_rem (ML - L2 + toRad (eviction * Fin 10)) (Fin 2 * Math_PI)
                 + Fin 2 * Math_PI) (Fin 2 * Math_PI))"

definition getMoonIllumination :: "int \<Rightarrow> jsdate \<Rightarrow> MoonIllumination" where
  "getMoonIllumination tza date =
     (let d = moon_d tza date;
          phase = moon_phase_angle d
      in \<lparr>fraction = (Fin 1 - Math_cos phase) / Fin 2,
          phase = phase / (Fin 2 * Math_PI)\<rparr>)"

subsection \<open>getTimes\<close>

definition J1970 :: jsnum where "J1970 = Fin 2440588"
definition J2000 :: jsnum where "J2000 = Fin 2451545"
definition dayMs :: jsnum where "dayMs = Fin 86400000"
definition J0 :: jsnum where "J0 = Fin 0.0009"

definition toJulian :: "jsdate \<Rightarrow> jsnum" where
  "toJulian d = valueOf d / dayMs - Fin 0.5 + J1970"

definition fromJulian :: "jsnum \<Rightarrow> jsdate" where
  "fromJulian j = new_Date ((j + Fin 0.5 - J1970) * dayMs)"

definition toDays :: "jsdate \<Rightarrow> jsnum" where
  "toDays d = toJulian d - J2000"

definition sun_M :: "jsnum \<Rightarrow> jsnum" where
  "sun_M days = toRad (Fin 357.5291 + Fin 0.98560028 * days)"

definition sun_L :: "jsnum \<Rightarrow> jsnum" where
  "sun_L days =
     (let M = sun_M days
      in M + toRad (Fin 1.9148 * Math_sin M + Fin 0.02 * Math_sin (Fin 2 * M))
           + toRad (Fin 282.9372))"

definition sun_dec :: "jsnum \<Rightarrow> jsnum" where
  "sun_dec days =
     Math_asin (Math_sin (toRad (- Fin 23.45))
                * Math_cos (toRad (Fin 360 / Fin 365 * (days + Fin 10))))"

definition sun_Jnoon :: "jsnum \<Rightarrow> jsnum \<Rightarrow> jsnum" where
  "sun_Jnoon days lw =
     J2000 + J0
       + (Fin 0.0053 * Math_sin (sun_M days) - Fin 0.0069 * Math_sin (Fin 2 * sun_L days))
       + lw / (Fin 2 * Math_PI)"

text \<open>The argument of \<open>Math.acos\<close> in the hour-angle equation.\<close>

definition acos_arg :: "jsnum \<Rightarrow> jsnum \<Rightarrow> jsnum \<Rightarrow> jsnum" where
  "acos_arg phi dec h =
     (Math_sin (toRad h) - Math_sin phi * Math_sin dec) / (Math_cos phi * Math_cos dec)"

record RiseSet =
  rise :: jsdate
  set' :: jsdate

text \<open>
  The outcome of a block of statements: it completes with a value, or it throws. The
  body of the \<open>try\<close> statement of \<open>getTime\<close> applies arithmetic operators and functions
  of \<open>Math\<close> to Numbers and calls the Date constructor with a Number; none of them
  throws, so the body always completes.
\<close>

datatype 'a completion = Normal 'a | Throw

definition getTime_try :: "jsnum \<Rightarrow> jsnum \<Rightarrow> jsnum \<Rightarrow> jsnum \<Rightarrow> RiseSet completion" where
  "getTime_try phi dec Jnoon h =
     (let w = Math_acos (acos_arg phi dec h)
      in Normal \<lparr>rise = fromJulian (Jnoon - w / (Fin 2 * Math_PI) - J0),
                 set' = fromJulian (Jnoon + w / (Fin 2 * Math_PI) + J0)\<rparr>)"

text \<open>\<open>try { ... } catch { return null; }\<close>: \<open>None\<close> is \<open>null\<close>.\<close>

definition getTime :: "jsnum \<Rightarrow> jsnum \<Rightarrow> jsnum \<Rightarrow> jsnum \<Rightarrow> RiseSet option" where
  "getTime phi dec Jnoon h =
     (case getTime_try phi dec Jnoon h of Normal r \<Rightarrow> Some r | Throw \<Rightarrow> None)"

text \<open>
  A field of the result is \<open>getTime(h)?.rise\<close>: \<open>undefined\<close> (here \<open>None\<close>) when
  \<open>getTime\<close> returns \<open>null\<close>, and the Date object otherwise.
\<close>

record TwilightTimes =
  sunrise :: "jsdate option"
  sunset :: "jsdate option"
  astronomicalDawn :: "jsdate option"
  astronomicalDusk :: "jsdate option"

definition getTimes :: "jsdate \<Rightarrow> jsnum \<Rightarrow> jsnum \<Rightarrow> TwilightTimes" where
  "getTimes date lat lng =
     (let days = toDays date;
          lw = toRad (- lng);
          phi = toRad lat;
          dec = sun_dec days;
          Jnoon = sun_Jnoon days lw
      in \<lparr>sunrise = map_option rise (getTime phi dec Jnoon (- Fin 0.833)),
          sunset = map_option set' (getTime phi dec Jnoon (- Fin 0.833)),
          astronomicalDawn = map_option rise (getTime phi dec Jnoon (- Fin 18)),
          astronomicalDusk = map_option set' (getTime phi dec Jnoon (- Fin 18))\<rparr>)"

section \<open>Double precision\<close>











section \<open>Classifiers\<close>

record Condition =
  label :: string
  color :: string
  icon :: "nat list"

text \<open>The icons are single glyphs outside ASCII, given by their code points.\<close>

definition conditionLabel :: "jsnum \<Rightarrow> jsnum \<Rightarrow> jsnum \<Rightarrow> Condition" where
  "conditionLabel cloudcover seeing transparency =
     (if js_le cloudcover (Fin 10) \<and> js_ge seeing (Fin 7) \<and> js_ge transparency (Fin 7)
      then \<lparr>label = ''Excellent'', color = ''#00ffc8'', icon = [0x2726]\<rparr>
      else if js_le cloudcover (Fin 25) \<and> js_ge seeing (Fin 5) \<and> js_ge transparency (Fin 5)
      then \<lparr>label = ''Good'', color = ''#a3f07f'', icon = [0x25C9]\<rparr>
      else if js_le cloudcover (Fin 50)
      then \<lparr>label = ''Fair'', color = ''#f0d97f'', icon = [0x25CE]\<rparr>
      else if js_le cloudcover (Fin 75)
      then \<lparr>label = ''Poor'', color = ''#f0a97f'', icon = [0x25D1]\<rparr>
      else \<lparr>label = ''Cloudy'', color = ''#f07f7f'', icon = [0x25CF]\<rparr>)"

record MoonPhase =
  phase_label :: string
  phase_icon :: "nat list"

definition moonPhaseLabel :: "jsnum \<Rightarrow> MoonPhase" where
  "moonPhaseLabel phase' =
     (if js_lt phase' (Fin 0.03) \<or> js_gt phase' (Fin 0.97)
      then \<lparr>phase_label = ''New Moon'', phase_icon = [0x1F311]\<rparr>
      else if js_lt phase' (Fin 0.22)
      then \<lparr>phase_label = ''Waxing Crescent'', phase_icon = [0x1F312]\<rparr>
      else if js_lt phase' (Fin 0.28)
      then \<lparr>phase_label = ''First Quarter'', phase_icon = [0x1F313]\<rparr>
      else if js_lt phase' (Fin 0.47)
      then \<lparr>phase_label = ''Waxing Gibbous'', phase_icon = [0x1F314]\<rparr>
      else if js_lt phase' (Fin 0.53)
      then \<lparr>phase_label = ''Full Moon'', phase_icon = [0x1F315]\<rparr>
      else if js_lt phase' (Fin 0.72)
      then \<lparr>phase_label = ''Waning Gibbous'', phase_icon = [0x1F316]\<rparr>
      else if js_lt phase' (Fin 0.78)
      then \<lparr>phase_label = ''Last Quarter'', phase_icon = [0x1F317]\<rparr>
      else \<lparr>phase_label = ''Waning Crescent'', phase_icon = [0x1F318]\<rparr>)"

section \<open>Notions of the specification\<close>

text \<open>
  The circumpolar case of the hour-angle equation: the argument of \<open>Math.acos\<close> lies
  outside \<open>[-1, 1]\<close>.
\<close>

definition circumpolar :: "jsnum \<Rightarrow> bool" where
  "circumpolar a = (js_lt a (Fin (- 1)) \<or> js_gt a (Fin 1))"

text \<open>A valid Date holds a finite time value; an invalid Date holds \<open>NaN\<close>.\<close>

fun valid_date :: "jsdate \<Rightarrow> bool" where
  "valid_date (Date (Fin t)) = True"
| "valid_date (Date _) = False"

text \<open>
  A field of the result that is populated with a valid instant, and the comparison
  \<open>a < b\<close> of two fields (Dates are compared by their time values; a comparison with
  \<open>undefined\<close> is false).
\<close>

fun populated :: "jsdate option \<Rightarrow> bool" where
  "populated None = False"
| "populated (Some d) = valid_date d"

fun before :: "jsdate option \<Rightarrow> jsdate option \<Rightarrow> bool" where
  "before (Some a) (Some b) = js_lt (valueOf a) (valueOf b)"
| "before _ _ = False"

section \<open>The finite case, on the reals\<close>

text \<open>
  On finite arguments the functions above compute with real numbers. The definitions of
  this section name those real-valued computations; each is related to its source
  function by a lemma below (\<open>toRad_Fin\<close>, \<open>js_rem_Fin\<close>, \<open>moon_phase_angle_Fin\<close>,
  \<open>acos_arg_hour_arg\<close>, \<open>fromJulian_rise\<close>, \<open>fromJulian_set\<close>).
\<close>

text \<open>Degrees to radians: the finite case of \<open>toRad\<close>.\<close>

definition rad :: "real \<Rightarrow> real" where
  "rad x = x * pi / 180"

text \<open>The finite case of the operator \<open>%\<close>.\<close>

definition fmod :: "real \<Rightarrow> real \<Rightarrow> real" where
  "fmod x y = x - y * trunc (x / y)"

text \<open>
  The finite case of the phase angle of \<open>getMoonIllumination\<close> before the two
  remainders, its linear part and the argument of its sine, the last two in degrees.
\<close>

definition moon_theta :: "real \<Rightarrow> real" where
  "moon_theta d =
     (let M = rad (357.5291 + 0.98560028 * d);
          ML = rad (218.3165 + 13.17639648 * d);
          L2 = rad (282.9404 + 0.0000470935 * d);
          eviction = 1.2739 * sin (rad (2 * ((ML - L2) * 180 / pi)) - M * 180 / pi * rad 1)
      in ML - L2 + rad (eviction * 10))"

definition moon_u :: "real \<Rightarrow> real" where
  "moon_u d = (218.3165 + 13.17639648 * d) - (282.9404 + 0.0000470935 * d)"

definition moon_x :: "real \<Rightarrow> real" where
  "moon_x d = 2 * moon_u d - (357.5291 + 0.98560028 * d)"

text \<open>
  The finite case of \<open>acos_arg\<close>, with latitude, declination and elevation in degrees.
\<close>

definition hour_arg :: "real \<Rightarrow> real \<Rightarrow> real \<Rightarrow> real" where
  "hour_arg p d h = (sin (rad h) - sin (rad p) * sin (rad d)) / (cos (rad p) * cos (rad d))"

text \<open>
  The arguments of the Date constructor for the rise and the set instant, in
  milliseconds, from the Julian day \<open>j\<close> of solar noon and the hour angle \<open>u\<close> as a
  fraction of a day.
\<close>

definition rise_ms :: "real \<Rightarrow> real \<Rightarrow> real" where
  "rise_ms j u = (j - u - 0.0009 + 0.5 - 2440588) * 86400000"

definition set_ms :: "real \<Rightarrow> real \<Rightarrow> real" where
  "set_ms j u = (j + u + 0.0009 + 0.5 - 2440588) * 86400000"

section \<open>Arithmetic on finite values\<close>

lemma Fin_add [simp]: "Fin x + Fin y = Fin (x + y)"
  by (simp add: plus_jsnum_def)

lemma Fin_diff [simp]: "Fin x - Fin y = Fin (x - y)"
  by (simp add: minus_jsnum_def)

lemma Fin_uminus [simp]: "- Fin x = Fin (- x)"
  by (simp add: uminus_jsnum_def)

lemma Fin_mult [simp]: "Fin x * Fin y = Fin (x * y)"
  by (simp add: times_jsnum_def)

lemma Fin_divide [simp]: "y \<noteq> 0 \<Longrightarrow> Fin x / Fin y = Fin (x / y)"
  by (simp add: divide_jsnum_def)

lemma toRad_Fin [simp]: "toRad (Fin x) = Fin (rad x)"
  by (simp add: toRad_def Math_PI_def rad_def)

lemma trunc_of_int [simp]: "trunc (of_int n) = of_int n"
  by (simp add: trunc_def)

lemma js_le_Fin [simp]: "js_le (Fin x) (Fin y) = (x \<le> y)"
  by auto

lemma js_ge_Fin [simp]: "js_ge (Fin x) (Fin y) = (y \<le> x)"
  by (auto simp: js_ge_def)

lemma js_gt_Fin [simp]: "js_gt (Fin x) (Fin y) = (y < x)"
  by (simp add: js_gt_def)

text \<open>\<open>NaN\<close> is absorbing.\<close>

lemma NaN_add [simp]: "NaN + x = NaN" "x + NaN = NaN"
  by (cases x; simp add: plus_jsnum_def)+

lemma NaN_diff [simp]: "NaN - x = NaN" "x - NaN = NaN"
  by (cases x; simp add: minus_jsnum_def)+

lemma NaN_mult [simp]: "NaN * x = NaN" "x * NaN = NaN"
  by (cases x; simp add: times_jsnum_def)+

lemma NaN_divide [simp]: "NaN / x = NaN" "x / NaN = NaN"
  by (cases x; simp add: divide_jsnum_def)+

lemma fromJulian_NaN [simp]: "fromJulian NaN = Date NaN"
  by (simp add: fromJulian_def new_Date_def)

lemma toDays_Fin [simp]:
  "toDays (Date (Fin t)) = Fin (t / 86400000 - 0.5 + 2440588 - 2451545)"
  by (simp add: toDays_def toJulian_def dayMs_def J1970_def J2000_def)

section \<open>Angles in degrees\<close>

lemma rad_le_iff [simp]: "rad a \<le> rad b \<longleftrightarrow> a \<le> b"
  by (simp add: rad_def)

lemma rad_less_iff [simp]: "rad a < rad b \<longleftrightarrow> a < b"
  by (simp add: rad_def)

lemma rad_diff: "rad a - rad b = rad (a - b)"
  by (simp add: rad_def algebra_simps diff_divide_distrib)

lemma rad_add: "rad a + rad b = rad (a + b)"
  by (simp add: rad_def algebra_simps add_divide_distrib)

lemma rad_minus: "- rad a = rad (- a)"
  by (simp add: rad_def)

lemma rad_0 [simp]: "rad 0 = 0"
  by (simp add: rad_def)

lemma rad_nonneg_iff [simp]: "0 \<le> rad a \<longleftrightarrow> 0 \<le> a"
  using rad_le_iff [of 0 a] by (simp del: rad_le_iff)

lemma rad_90: "pi / 2 = rad 90"
  by (simp add: rad_def)

lemma rad_180: "pi = rad 180"
  by (simp add: rad_def)

lemma cos_rad_pos: "- 90 < a \<Longrightarrow> a < 90 \<Longrightarrow> 0 < cos (rad a)"
  by (rule cos_gt_zero_pi) (simp_all add: rad_90 rad_minus)

lemma cos_rad_less: "0 \<le> a \<Longrightarrow> a < b \<Longrightarrow> b \<le> 180 \<Longrightarrow> cos (rad b) < cos (rad a)"
  by (rule cos_monotone_0_pi) (simp_all add: rad_180)

lemma sin_rad: "sin (rad a) = cos (rad (90 - a))"
  by (simp add: cos_diff flip: rad_diff rad_90)

lemma cos_rad_180: "cos (rad (180 - a)) = - cos (rad a)"
  by (simp flip: rad_diff rad_180)

section \<open>The hour-angle equation\<close>

text \<open>
  With \<open>p\<close> the latitude, \<open>d\<close> the declination and \<open>h\<close> the elevation, all in degrees:
  the argument of the arc cosine exceeds 1 when \<open>90 - h < p - d\<close> (the sun stays below
  the elevation) and is below \<open>-1\<close> when \<open>90 + h < p + d\<close> (it stays above).
\<close>

lemma hour_arg_gt_1:
  assumes "- 90 < p" "p < 90" "- 90 < d" "d < 90" "- 90 \<le> h" "h \<le> 90"
    and "0 \<le> p - d" "p - d \<le> 180" "90 - h < p - d"
  shows "1 < (sin (rad h) - sin (rad p) * sin (rad d)) / (cos (rad p) * cos (rad d))"
proof -
  have pos: "0 < cos (rad p) * cos (rad d)"
    using assms by (simp add: cos_rad_pos)
  have "cos (rad (p - d)) < cos (rad (90 - h))"
    using assms by (intro cos_rad_less) simp_all
  then have "cos (rad p) * cos (rad d) + sin (rad p) * sin (rad d) < sin (rad h)"
    by (simp add: sin_rad [of h] cos_diff flip: rad_diff [of p d])
  then have "cos (rad p) * cos (rad d) < sin (rad h) - sin (rad p) * sin (rad d)"
    by simp
  with pos show ?thesis
    by (simp add: less_divide_eq)
qed

lemma hour_arg_lt_minus_1:
  assumes "- 90 < p" "p < 90" "- 90 < d" "d < 90" "- 90 \<le> h" "h \<le> 90"
    and "0 \<le> p + d" "p + d \<le> 180" "90 + h < p + d"
  shows "(sin (rad h) - sin (rad p) * sin (rad d)) / (cos (rad p) * cos (rad d)) < - 1"
proof -
  have pos: "0 < cos (rad p) * cos (rad d)"
    using assms by (simp add: cos_rad_pos)
  have "cos (rad (90 - h)) < cos (rad (180 - (p + d)))"
    using assms by (intro cos_rad_less) simp_all
  then have "sin (rad h) < - (cos (rad p) * cos (rad d) - sin (rad p) * sin (rad d))"
    by (simp add: sin_rad [of h] cos_rad_180 cos_add flip: rad_add [of p d])
  then have "sin (rad h) - sin (rad p) * sin (rad d) < - (cos (rad p) * cos (rad d))"
    by simp
  with pos show ?thesis
    by (simp add: divide_less_eq)
qed

lemma acos_arg_Fin:
  "cos p * cos d \<noteq> 0 \<Longrightarrow>
     acos_arg (Fin p) (Fin d) (Fin h) = Fin ((sin (rad h) - sin p * sin d) / (cos p * cos d))"
  by (simp add: acos_arg_def)

lemma sun_dec_winter: "sun_dec (Fin (- 10)) = Fin (rad (- 23.45))"
proof -
  have "arcsin (sin (rad (- 23.45))) = rad (- 23.45)"
    by (rule arcsin_sin) (simp_all add: rad_90 rad_minus)
  then show ?thesis
    by (simp add: sun_dec_def)
qed

lemma sun_dec_summer: "sun_dec (Fin 172.5) = Fin (rad 23.45)"
proof -
  have "arcsin (sin (rad 23.45)) = rad 23.45"
    by (rule arcsin_sin) (simp_all add: rad_90 rad_minus)
  moreover have "cos (rad 180) = - 1"
    by (simp flip: rad_180)
  moreover have "sin (rad (- 23.45)) = - sin (rad 23.45)"
    by (simp flip: rad_minus)
  ultimately show ?thesis
    by (simp add: sun_dec_def)
qed

lemma circumpolar_above:
  assumes "- 90 < p" "p < 90" "- 90 < d" "d < 90" "- 90 \<le> h" "h \<le> 90"
    and "0 \<le> p - d" "p - d \<le> 180" "90 - h < p - d"
  shows "circumpolar (acos_arg (Fin (rad p)) (Fin (rad d)) (Fin h))"
proof -
  have "0 < cos (rad p) * cos (rad d)"
    using assms by (simp add: cos_rad_pos)
  then have "cos (rad p) * cos (rad d) \<noteq> 0"
    by linarith
  from acos_arg_Fin [OF this] show ?thesis
    using hour_arg_gt_1 [OF assms] by (simp add: circumpolar_def)
qed

lemma circumpolar_below:
  assumes "- 90 < p" "p < 90" "- 90 < d" "d < 90" "- 90 \<le> h" "h \<le> 90"
    and "0 \<le> p + d" "p + d \<le> 180" "90 + h < p + d"
  shows "circumpolar (acos_arg (Fin (rad p)) (Fin (rad d)) (Fin h))"
proof -
  have "0 < cos (rad p) * cos (rad d)"
    using assms by (simp add: cos_rad_pos)
  then have "cos (rad p) * cos (rad d) \<noteq> 0"
    by linarith
  from acos_arg_Fin [OF this] show ?thesis
    using hour_arg_lt_minus_1 [OF assms] by (simp add: circumpolar_def)
qed

lemma Math_acos_circumpolar: "circumpolar a \<Longrightarrow> Math_acos a = NaN"
  by (cases a) (auto simp: circumpolar_def js_gt_def)

lemma getTime_Some: "getTime phi dec Jnoon h \<noteq> None"
  by (simp add: getTime_def getTime_try_def Let_def)

lemma getTime_circumpolar:
  "circumpolar (acos_arg phi dec h) \<Longrightarrow>
     getTime phi dec Jnoon h = Some \<lparr>rise = Date NaN, set' = Date NaN\<rparr>"
  by (simp add: getTime_def getTime_try_def Math_acos_circumpolar)

section \<open>The remainder and the lunar phase angle\<close>

lemma js_rem_Fin: "y \<noteq> 0 \<Longrightarrow> js_rem (Fin x) (Fin y) = Fin (fmod x y)"
  by (simp add: fmod_def)







lemma rad_180_pi: "rad x * 180 / pi = x"
  by (simp add: rad_def)

lemma rad_mult_rad_1: "x * rad 1 = rad x"
  by (simp add: rad_def)

lemma rad_mult_left: "rad (c * x) = c * rad x"
  by (simp add: rad_def)

lemma moon_phase_angle_Fin:
  "moon_phase_angle (Fin d) = Fin (fmod (fmod (moon_theta d) (2 * pi) + 2 * pi) (2 * pi))"
  by (simp add: moon_phase_angle_def moon_theta_def Let_def Math_PI_def js_rem_Fin
        del: js_rem.simps)

lemma new_Date_2000_Fin:
  assumes "\<bar>tza\<bar> \<le> 86400000"
  shows "new_Date_2000_0_1_12 tza = Date (Fin (946728000000 - of_int tza))"
proof -
  have e: "(10957 * 86400000 + 12 * 3600000 - of_int tza :: real) = of_int (946728000000 - tza)"
    by simp
  have "\<not> \<bar>real_of_int (946728000000 - tza)\<bar> > 8640000000000000"
    using assms by linarith
  then have "TimeClip (Fin (of_int (946728000000 - tza))) = Fin (of_int (946728000000 - tza))"
    by (simp only: TimeClip.simps trunc_of_int if_False)
  then show ?thesis
    unfolding new_Date_2000_0_1_12_def e by simp
qed

lemma moon_d_Fin:
  "\<bar>tza\<bar> \<le> 86400000 \<Longrightarrow>
     moon_d tza (Date (Fin t)) = Fin ((t - (946728000000 - of_int tza)) / 86400000)"
  by (simp add: moon_d_def new_Date_2000_Fin)

lemma moon_theta_deg: "moon_theta d = rad (moon_u d + 12.739 * sin (rad (moon_x d)))"
proof -
  let ?M = "rad (357.5291 + 0.98560028 * d)"
  let ?Lm = "rad (218.3165 + 13.17639648 * d)"
  let ?L2 = "rad (282.9404 + 0.0000470935 * d)"
  have u: "?Lm - ?L2 = rad (moon_u d)"
    by (simp only: rad_diff moon_u_def)
  have "rad (2 * (rad (moon_u d) * 180 / pi)) - ?M * 180 / pi * rad 1
      = rad (2 * moon_u d) - rad (357.5291 + 0.98560028 * d)"
    by (simp only: rad_180_pi rad_mult_rad_1)
  also have "\<dots> = rad (moon_x d)"
    by (simp only: rad_diff moon_x_def)
  finally have x: "rad (2 * (rad (moon_u d) * 180 / pi)) - ?M * 180 / pi * rad 1 = rad (moon_x d)" .
  have "moon_theta d = rad (moon_u d) + rad (1.2739 * sin (rad (moon_x d)) * 10)"
    unfolding moon_theta_def Let_def u x ..
  also have "\<dots> = rad (moon_u d + 12.739 * sin (rad (moon_x d)))"
    by (simp add: rad_add)
  finally show ?thesis .
qed

section \<open>The lunar phase angle as a function of the day\<close>

text \<open>
  Before the remainders the phase angle grows strictly with \<open>d\<close>, by less than a full
  turn over two days; so two hosts whose reference dates differ get different phases.
\<close>

lemma sin_lipschitz: "\<bar>sin a - sin b\<bar> \<le> \<bar>a - b\<bar>" for a b :: real
proof -
  have "\<bar>sin a - sin b\<bar> = 2 * \<bar>sin ((a - b) / 2)\<bar> * \<bar>cos ((a + b) / 2)\<bar>"
    by (simp add: sin_diff_sin abs_mult)
  also have "\<dots> \<le> 2 * \<bar>(a - b) / 2\<bar> * 1"
    by (intro mult_mono mult_left_mono abs_sin_x_le_abs_x) simp_all
  finally show ?thesis by simp
qed

lemma rad_le_4:
  assumes "0 \<le> x"
  shows "rad x \<le> x * 4 / 180"
proof -
  have "x * pi \<le> x * 4"
    using assms pi_less_4 by (intro mult_left_mono) simp_all
  then show ?thesis
    by (simp add: rad_def mult.commute)
qed

lemma moon_theta_increasing:
  assumes "d < d'" "d' - d \<le> 2"
  shows "0 < moon_theta d' - moon_theta d \<and> moon_theta d' - moon_theta d < 2 * pi"
proof -
  define s where "s = sin (rad (moon_x d')) - sin (rad (moon_x d))"
  have x: "moon_x d' - moon_x d = 25.367098493 * (d' - d)"
    by (simp add: moon_x_def moon_u_def algebra_simps)
  have "\<bar>s\<bar> \<le> \<bar>rad (moon_x d') - rad (moon_x d)\<bar>"
    unfolding s_def by (rule sin_lipschitz)
  also have "\<dots> = rad (25.367098493 * (d' - d))"
    using assms by (simp add: rad_diff x)
  also have "\<dots> \<le> 25.367098493 * (d' - d) * 4 / 180"
    using assms by (intro rad_le_4) simp
  finally have s: "\<bar>s\<bar> \<le> 25.367098493 * (d' - d) * 4 / 180" .
  have "moon_theta d' - moon_theta d
      = rad (moon_u d' + 12.739 * sin (rad (moon_x d'))
             - (moon_u d + 12.739 * sin (rad (moon_x d))))"
    by (simp only: moon_theta_deg rad_diff)
  also have "moon_u d' + 12.739 * sin (rad (moon_x d'))
             - (moon_u d + 12.739 * sin (rad (moon_x d)))
      = 13.1763493865 * (d' - d) + 12.739 * s"
    unfolding moon_u_def s_def by (simp add: field_simps)
  finally have e: "moon_theta d' - moon_theta d = rad (13.1763493865 * (d' - d) + 12.739 * s)" .
  have "0 < 13.1763493865 * (d' - d) + 12.739 * s"
    using s assms by (simp add: abs_le_iff, argo)
  moreover have "13.1763493865 * (d' - d) + 12.739 * s < 360"
    using s assms by (simp add: abs_le_iff, argo)
  ultimately have "rad 0 < rad (13.1763493865 * (d' - d) + 12.739 * s)"
    "rad (13.1763493865 * (d' - d) + 12.739 * s) < rad 360"
    by (simp_all only: rad_less_iff)
  moreover have "rad 360 = 2 * pi"
    by (simp add: rad_def)
  ultimately show ?thesis
    by (simp add: e)
qed

lemma fmod_int: "\<exists>k::int. fmod x y = x - y * of_int k"
  unfolding fmod_def trunc_def by (cases "0 \<le> x / y") auto

lemma fmod_twice_int: "\<exists>k::int. fmod (fmod x y + y) y = x - y * of_int k"
proof -
  obtain i :: int where i: "fmod x y = x - y * of_int i"
    using fmod_int by blast
  obtain j :: int where j: "fmod (fmod x y + y) y = fmod x y + y - y * of_int j"
    using fmod_int by blast
  have "fmod (fmod x y + y) y = x - y * of_int (i + j - 1)"
    by (simp only: j) (simp add: i algebra_simps)
  then show ?thesis ..
qed

lemma fmod_twice_neq:
  assumes "0 < x' - x" "x' - x < y"
  shows "fmod (fmod x y + y) y \<noteq> fmod (fmod x' y + y) y"
proof
  assume eq: "fmod (fmod x y + y) y = fmod (fmod x' y + y) y"
  obtain i :: int where i: "fmod (fmod x y + y) y = x - y * of_int i"
    using fmod_twice_int by blast
  obtain j :: int where j: "fmod (fmod x' y + y) y = x' - y * of_int j"
    using fmod_twice_int by blast
  have e: "x' - x = y * of_int (j - i)"
    using eq unfolding i j by (simp add: algebra_simps)
  have y: "0 < y"
    using assms by linarith
  show False
  proof (cases "j - i \<le> 0")
    case True
    then have "y * of_int (j - i) \<le> 0"
      using y by (simp add: mult_le_0_iff)
    with e assms show False by linarith
  next
    case False
    then have "1 \<le> real_of_int (j - i)"
      by linarith
    then have "y * 1 \<le> y * of_int (j - i)"
      using y by (intro mult_left_mono) simp_all
    with e assms show False by linarith
  qed
qed

lemma moon_phase_depends_on_zone:
  assumes "\<bar>tza\<bar> \<le> 86400000" "\<bar>tza'\<bar> \<le> 86400000" "tza < tza'"
  shows "phase (getMoonIllumination tza (Date (Fin t)))
         \<noteq> phase (getMoonIllumination tza' (Date (Fin t)))"
proof -
  define d where "d = (t - (946728000000 - of_int tza)) / 86400000"
  define d' where "d' = (t - (946728000000 - of_int tza')) / 86400000"
  have "d' - d = (of_int tza' - of_int tza) / 86400000"
    by (simp add: d_def d'_def field_simps)
  then have "d < d'" "d' - d \<le> 2"
    using assms by simp_all
  then have "0 < moon_theta d' - moon_theta d" "moon_theta d' - moon_theta d < 2 * pi"
    using moon_theta_increasing by blast+
  then have ne: "fmod (fmod (moon_theta d) (2 * pi) + 2 * pi) (2 * pi)
      \<noteq> fmod (fmod (moon_theta d') (2 * pi) + 2 * pi) (2 * pi)"
    by (rule fmod_twice_neq)
  have "moon_d tza (Date (Fin t)) = Fin d" "moon_d tza' (Date (Fin t)) = Fin d'"
    using assms by (simp_all add: moon_d_Fin d_def d'_def)
  then show ?thesis
    using ne by (simp add: getMoonIllumination_def Let_def moon_phase_angle_Fin Math_PI_def)
qed

section \<open>Bounds for the declination and the hour angle\<close>

lemma sin_rad_23_bounds: "0 \<le> sin (rad 23.45)" "sin (rad 23.45) \<le> 1"
  by (rule sin_ge_zero; simp add: rad_180) simp

lemma sun_dec_bound:
  "\<exists>\<delta>. sun_dec (Fin d) = Fin (rad \<delta>) \<and> - 23.45 \<le> \<delta> \<and> \<delta> \<le> 23.45"
proof -
  define e where "e = sin (rad 23.45)"
  define c where "c = cos (rad (360 / 365 * (d + 10)))"
  define x where "x = - e * c"
  have e: "0 \<le> e" "e \<le> 1"
    unfolding e_def by (rule sin_rad_23_bounds)+
  have c: "\<bar>c\<bar> \<le> 1"
    unfolding c_def by (rule abs_cos_le_one)
  have "\<bar>x\<bar> = e * \<bar>c\<bar>"
    using e by (simp add: x_def abs_mult)
  also have "\<dots> \<le> e * 1"
    using e c by (intro mult_left_mono)
  finally have x: "\<bar>x\<bar> \<le> e"
    by simp
  then have x1: "\<bar>x\<bar> \<le> 1" "- 1 \<le> x" "x \<le> 1"
    using e by linarith+
  have a: "arcsin e = rad 23.45"
    unfolding e_def by (rule arcsin_sin) (simp_all add: rad_90 rad_minus)
  have "arcsin x \<le> arcsin e"
    using x x1 e by (subst arcsin_le_mono) simp_all
  moreover have "arcsin (- e) \<le> arcsin x"
    using x x1 e by (subst arcsin_le_mono) simp_all
  moreover have "arcsin (- e) = - arcsin e"
    using e by (intro arcsin_minus) simp_all
  ultimately have b: "rad (- 23.45) \<le> arcsin x" "arcsin x \<le> rad 23.45"
    by (simp_all add: a flip: rad_minus)
  define \<delta> where "\<delta> = arcsin x * 180 / pi"
  have r: "rad \<delta> = arcsin x"
    by (simp add: \<delta>_def rad_def)
  have "sin (rad (- 23.45)) = - e"
    by (simp add: e_def flip: rad_minus)
  then have "sun_dec (Fin d) = Math_asin (Fin x)"
    by (simp add: sun_dec_def x_def c_def)
  also have "\<dots> = Fin (rad \<delta>)"
    using x1 by (simp add: r)
  finally have "sun_dec (Fin d) = Fin (rad \<delta>)" .
  moreover have "- 23.45 \<le> \<delta>" "\<delta> \<le> 23.45"
    using b unfolding r [symmetric] by (simp_all only: rad_le_iff)
  ultimately show ?thesis
    by blast
qed

lemma rad_abs: "\<bar>rad x\<bar> = rad \<bar>x\<bar>"
  by (simp add: rad_def abs_mult)

lemma sin_rad_nonneg: "0 \<le> a \<Longrightarrow> a \<le> 180 \<Longrightarrow> 0 \<le> sin (rad a)"
  by (rule sin_ge_zero) (simp_all add: rad_180)

lemma sin_rad_minus: "sin (rad (- a)) = - sin (rad a)"
  by (simp flip: rad_minus)

lemma cos_rad_nonneg: "\<bar>a\<bar> \<le> 90 \<Longrightarrow> 0 \<le> cos (rad a)"
  by (rule cos_ge_zero) (simp_all add: rad_90 rad_minus)

lemma cos_rad_mono: "0 \<le> a \<Longrightarrow> a \<le> b \<Longrightarrow> b \<le> 180 \<Longrightarrow> cos (rad b) \<le> cos (rad a)"
  by (rule cos_monotone_0_pi_le) (simp_all add: rad_180)

lemma hour_arg_le_1:
  assumes "- 90 < p" "p < 90" "- 90 < d" "d < 90" "- 90 \<le> h" "h \<le> 0" "\<bar>p - d\<bar> \<le> 90"
  shows "hour_arg p d h \<le> 1"
proof -
  have pos: "0 < cos (rad p) * cos (rad d)"
    using assms by (simp add: cos_rad_pos)
  have "0 \<le> sin (rad (- h))"
    using assms by (intro sin_rad_nonneg) simp_all
  then have "sin (rad h) \<le> 0"
    by (simp add: sin_rad_minus)
  moreover have "0 \<le> cos (rad (p - d))"
    using assms by (intro cos_rad_nonneg)
  ultimately have "sin (rad h) \<le> cos (rad p) * cos (rad d) + sin (rad p) * sin (rad d)"
    by (simp add: cos_diff flip: rad_diff [of p d])
  then have "sin (rad h) - sin (rad p) * sin (rad d) \<le> cos (rad p) * cos (rad d)"
    by simp
  with pos show ?thesis
    by (simp add: hour_arg_def divide_le_eq)
qed

lemma hour_arg_ge_minus_1:
  assumes "- 90 < p" "p < 90" "- 90 < d" "d < 90" "- 90 \<le> h" "h \<le> 0" "\<bar>p + d\<bar> \<le> 90 + h"
  shows "- 1 \<le> hour_arg p d h"
proof -
  have pos: "0 < cos (rad p) * cos (rad d)"
    using assms by (simp add: cos_rad_pos)
  have "cos (rad (90 + h)) \<le> cos (rad \<bar>p + d\<bar>)"
    using assms by (intro cos_rad_mono) simp_all
  moreover have "cos (rad \<bar>p + d\<bar>) = cos (rad (p + d))"
    by (simp flip: rad_abs)
  moreover have "cos (rad (90 + h)) = - sin (rad h)"
    using sin_rad [of "- h"] by (simp add: sin_rad_minus)
  ultimately have "- sin (rad h) \<le> cos (rad p) * cos (rad d) - sin (rad p) * sin (rad d)"
    by (simp add: cos_add flip: rad_add [of p d])
  then have "- (cos (rad p) * cos (rad d)) \<le> sin (rad h) - sin (rad p) * sin (rad d)"
    by simp
  with pos show ?thesis
    by (simp add: hour_arg_def le_divide_eq)
qed

lemma arccos_gap:
  assumes "- 1 \<le> a" "a \<le> b" "b \<le> 1"
  shows "b - a \<le> arccos a - arccos b"
proof -
  define \<alpha> \<beta> where "\<alpha> = arccos a" and "\<beta> = arccos b"
  have r: "0 \<le> \<alpha>" "\<alpha> \<le> pi" "0 \<le> \<beta>" "\<beta> \<le> pi"
    using assms by (simp_all add: \<alpha>_def \<beta>_def arccos_lbound arccos_ubound)
  have o: "\<beta> \<le> \<alpha>"
    unfolding \<alpha>_def \<beta>_def using assms by (intro arccos_le_arccos)
  have "b - a = cos \<beta> - cos \<alpha>"
    using assms by (simp add: \<alpha>_def \<beta>_def)
  also have "\<dots> = 2 * sin ((\<beta> + \<alpha>) / 2) * sin ((\<alpha> - \<beta>) / 2)"
    by (rule cos_diff_cos)
  also have "\<dots> \<le> 2 * 1 * ((\<alpha> - \<beta>) / 2)"
  proof (intro mult_mono mult_left_mono)
    show "sin ((\<alpha> - \<beta>) / 2) \<le> (\<alpha> - \<beta>) / 2"
      using o by (intro sin_x_le_x) simp
    show "0 \<le> sin ((\<alpha> - \<beta>) / 2)"
      using o r by (intro sin_ge_zero) simp_all
    show "0 \<le> sin ((\<beta> + \<alpha>) / 2)"
      using r by (intro sin_ge_zero) simp_all
  qed simp_all
  finally show ?thesis
    by (simp add: \<alpha>_def \<beta>_def)
qed

lemma sin_rad_18_ge: "1 / 4 \<le> sin (rad 18)"
proof -
  have "sin (rad 30) = 1 / 2"
    using sin_30 by (simp add: rad_def)
  moreover have "sin (rad 30) = 2 * sin (rad 15) * cos (rad 15)"
    using sin_double [of "rad 15"] by (simp add: rad_def)
  moreover have "0 \<le> sin (rad 15)"
    by (intro sin_rad_nonneg) simp_all
  then have "2 * sin (rad 15) * cos (rad 15) \<le> 2 * sin (rad 15) * 1"
    by (intro mult_left_mono) simp_all
  ultimately have "1 / 4 \<le> sin (rad 15)"
    by simp
  moreover have "sin (rad 15) \<le> sin (rad 18)"
    by (rule sin_monotone_2pi_le) (simp_all add: rad_90 rad_minus)
  ultimately show ?thesis
    by simp
qed

lemma sin_rad_0833_le: "sin (rad 0.833) \<le> 1 / 8"
proof -
  have "sin (rad 0.833) \<le> rad 0.833"
    by (intro sin_x_le_x) simp
  also have "\<dots> \<le> 0.833 * 4 / 180"
    by (intro rad_le_4) simp
  finally show ?thesis
    by simp
qed

lemma hour_arg_gap:
  assumes "- 90 < p" "p < 90" "- 90 < d" "d < 90"
  shows "1 / 8 \<le> hour_arg p d (- 0.833) - hour_arg p d (- 18)"
proof -
  define c where "c = cos (rad p) * cos (rad d)"
  define n where "n = sin (rad 18) - sin (rad 0.833)"
  have c: "0 < c" "c \<le> 1"
    using assms unfolding c_def by (simp_all add: cos_rad_pos mult_le_one cos_ge_zero less_imp_le)
  have n: "1 / 8 \<le> n"
    using sin_rad_18_ge sin_rad_0833_le by (simp add: n_def)
  have "hour_arg p d (- 0.833) - hour_arg p d (- 18) = n / c"
    by (simp add: hour_arg_def c_def n_def sin_rad_minus diff_divide_distrib)
  moreover have "n * c \<le> n * 1"
    using n c by (intro mult_left_mono) simp_all
  then have "n \<le> n / c"
    using c by (simp add: le_divide_eq)
  ultimately show ?thesis
    using n by linarith
qed

section \<open>Rise and set instants\<close>

lemma fromJulian_rise:
  "fromJulian (Fin j - Fin w / (Fin 2 * Math_PI) - J0) = new_Date (Fin (rise_ms j (w / (2 * pi))))"
  by (simp add: fromJulian_def Math_PI_def J0_def J1970_def dayMs_def rise_ms_def)

lemma fromJulian_set:
  "fromJulian (Fin j + Fin w / (Fin 2 * Math_PI) + J0) = new_Date (Fin (set_ms j (w / (2 * pi))))"
  by (simp add: fromJulian_def Math_PI_def J0_def J1970_def dayMs_def set_ms_def)

lemma acos_arg_hour_arg:
  assumes "- 90 < p" "p < 90" "- 90 < d" "d < 90"
  shows "acos_arg (Fin (rad p)) (Fin (rad d)) (Fin h) = Fin (hour_arg p d h)"
proof -
  have "0 < cos (rad p) * cos (rad d)"
    using assms by (simp add: cos_rad_pos)
  then have "cos (rad p) * cos (rad d) \<noteq> 0"
    by linarith
  then show ?thesis
    unfolding hour_arg_def by (rule acos_arg_Fin)
qed

lemma getTime_Fin:
  assumes "- 90 < p" "p < 90" "- 90 < d" "d < 90"
    and "- 1 \<le> hour_arg p d h" "hour_arg p d h \<le> 1"
  shows "getTime (Fin (rad p)) (Fin (rad d)) (Fin j) (Fin h) =
     Some \<lparr>rise = new_Date (Fin (rise_ms j (arccos (hour_arg p d h) / (2 * pi)))),
           set' = new_Date (Fin (set_ms j (arccos (hour_arg p d h) / (2 * pi))))\<rparr>"
proof -
  have "Math_acos (acos_arg (Fin (rad p)) (Fin (rad d)) (Fin h)) = Fin (arccos (hour_arg p d h))"
    using assms by (simp add: acos_arg_hour_arg)
  then show ?thesis
    by (simp only: getTime_def getTime_try_def Let_def fromJulian_rise fromJulian_set
        completion.case)
qed

lemma new_Date_Fin:
  assumes "0 \<le> v" "v \<le> 8640000000000000"
  shows "new_Date (Fin v) = Date (Fin (of_int \<lfloor>v\<rfloor>))"
  using assms by (simp add: new_Date_def trunc_def)

lemma floor_less_gap:
  fixes a b :: real
  assumes "a + 1 \<le> b"
  shows "\<lfloor>a\<rfloor> < \<lfloor>b\<rfloor>"
proof -
  have "\<lfloor>a\<rfloor> + 1 = \<lfloor>a + 1\<rfloor>"
    by simp
  also have "\<dots> \<le> \<lfloor>b\<rfloor>"
    using assms by (rule floor_mono)
  finally show ?thesis
    by simp
qed

lemma sun_Jnoon_bound:
  assumes "- 180 \<le> lng" "lng \<le> 180"
  shows "\<exists>j. sun_Jnoon (Fin d) (toRad (- Fin lng)) = Fin j \<and> \<bar>j - 2451545\<bar> \<le> 0.52"
proof -
  obtain m where m: "sun_M (Fin d) = Fin m"
    by (simp add: sun_M_def)
  obtain l where l: "sun_L (Fin d) = Fin l"
    by (simp add: sun_L_def Let_def m)
  define j where "j = 2451545 + 0.0009 + (0.0053 * sin m - 0.0069 * sin (2 * l)) - lng / 360"
  have "rad (- lng) / (2 * pi) = - lng / 360"
    by (simp add: rad_def)
  then have "sun_Jnoon (Fin d) (toRad (- Fin lng)) = Fin j"
    by (simp add: sun_Jnoon_def m l J2000_def J0_def Math_PI_def j_def)
  moreover have "\<bar>j - 2451545\<bar> \<le> 0.52"
    using assms abs_sin_le_one [of m] abs_sin_le_one [of "2 * l"]
    unfolding j_def abs_le_iff by (simp, argo)
  ultimately show ?thesis
    by blast
qed

lemma ms_range:
  assumes "\<bar>j - 2451545\<bar> \<le> 0.52" "0 \<le> u" "u \<le> 1 / 2"
  shows "0 \<le> rise_ms j u" "rise_ms j u \<le> 8640000000000000"
    "0 \<le> set_ms j u" "set_ms j u \<le> 8640000000000000"
    "rise_ms j u + 1 \<le> set_ms j u"
  using assms unfolding rise_ms_def set_ms_def abs_le_iff by (simp_all add: field_simps)

lemma ms_gap:
  assumes "u + 1 / 64 \<le> u'"
  shows "rise_ms j u' + 1 \<le> rise_ms j u" "set_ms j u + 1 \<le> set_ms j u'"
  using assms unfolding rise_ms_def set_ms_def by (simp_all add: field_simps)

lemma arccos_frac:
  assumes "- 1 \<le> a" "a \<le> 1"
  shows "0 \<le> arccos a / (2 * pi)" "arccos a / (2 * pi) \<le> 1 / 2"
  using arccos_lbound [OF assms] arccos_ubound [OF assms] by simp_all

lemma arccos_frac_gap:
  assumes "- 1 \<le> a" "a + 1 / 8 \<le> b" "b \<le> 1"
  shows "arccos b / (2 * pi) + 1 / 64 \<le> arccos a / (2 * pi)"
proof -
  have "1 / 8 \<le> arccos a - arccos b"
    using arccos_gap [of a b] assms by linarith
  then have "1 / 8 / 8 \<le> (arccos a - arccos b) / (2 * pi)"
    using pi_less_4 pi_gt_zero by (intro frac_le) simp_all
  then show ?thesis
    by (simp add: diff_divide_distrib)
qed

lemma getTimes_fields:
  "sunrise (getTimes date lat lng) =
     map_option rise (getTime (toRad lat) (sun_dec (toDays date))
       (sun_Jnoon (toDays date) (toRad (- lng))) (- Fin 0.833))"
  "sunset (getTimes date lat lng) =
     map_option set' (getTime (toRad lat) (sun_dec (toDays date))
       (sun_Jnoon (toDays date) (toRad (- lng))) (- Fin 0.833))"
  "astronomicalDawn (getTimes date lat lng) =
     map_option rise (getTime (toRad lat) (sun_dec (toDays date))
       (sun_Jnoon (toDays date) (toRad (- lng))) (- Fin 18))"
  "astronomicalDusk (getTimes date lat lng) =
     map_option set' (getTime (toRad lat) (sun_dec (toDays date))
       (sun_Jnoon (toDays date) (toRad (- lng))) (- Fin 18))"
  by (simp_all add: getTimes_def Let_def)

lemma getTime_values:
  assumes "- 90 < p" "p < 90" "- 90 < d" "d < 90"
    and "- 1 \<le> hour_arg p d h" "hour_arg p d h \<le> 1" "\<bar>j - 2451545\<bar> \<le> 0.52"
  shows "getTime (Fin (rad p)) (Fin (rad d)) (Fin j) (Fin h) =
     Some \<lparr>rise = Date (Fin (of_int \<lfloor>rise_ms j (arccos (hour_arg p d h) / (2 * pi))\<rfloor>)),
           set' = Date (Fin (of_int \<lfloor>set_ms j (arccos (hour_arg p d h) / (2 * pi))\<rfloor>))\<rparr>"
proof -
  let ?u = "arccos (hour_arg p d h) / (2 * pi)"
  have u: "0 \<le> ?u" "?u \<le> 1 / 2"
    using assms by (intro arccos_frac; simp)+
  have "new_Date (Fin (rise_ms j ?u)) = Date (Fin (of_int \<lfloor>rise_ms j ?u\<rfloor>))"
    using ms_range [OF assms(7) u] by (intro new_Date_Fin)
  moreover have "new_Date (Fin (set_ms j ?u)) = Date (Fin (of_int \<lfloor>set_ms j ?u\<rfloor>))"
    using ms_range [OF assms(7) u] by (intro new_Date_Fin)
  ultimately show ?thesis
    using getTime_Fin [OF assms(1-6), of j] by simp
qed

lemma js_lt_floor: "js_lt (Fin (of_int \<lfloor>a\<rfloor>)) (Fin (of_int \<lfloor>b\<rfloor>)) \<longleftrightarrow> \<lfloor>a\<rfloor> < \<lfloor>b\<rfloor>"
  by simp

lemma getTimes_sun:
  assumes "- 180 \<le> lng" "lng \<le> 180" "- 60 \<le> lat" "lat \<le> 60"
  shows "populated (sunrise (getTimes (Date (Fin t)) (Fin lat) (Fin lng)))
    \<and> populated (sunset (getTimes (Date (Fin t)) (Fin lat) (Fin lng)))
    \<and> before (sunrise (getTimes (Date (Fin t)) (Fin lat) (Fin lng)))
         (sunset (getTimes (Date (Fin t)) (Fin lat) (Fin lng)))"
proof -
  obtain \<delta> where dec: "sun_dec (toDays (Date (Fin t))) = Fin (rad \<delta>)"
    and \<delta>: "- 23.45 \<le> \<delta>" "\<delta> \<le> 23.45"
    using sun_dec_bound unfolding toDays_Fin by blast
  obtain j where noon: "sun_Jnoon (toDays (Date (Fin t))) (Fin (rad (- lng))) = Fin j"
    and j: "\<bar>j - 2451545\<bar> \<le> 0.52"
    using sun_Jnoon_bound [OF assms(1,2)] unfolding toDays_Fin toRad_Fin Fin_uminus by blast
  have b: "- 90 < lat" "lat < 90" "- 90 < \<delta>" "\<delta> < 90"
    using assms \<delta> by simp_all
  define a where "a = hour_arg lat \<delta> (- 0.833)"
  have r: "\<bar>lat - \<delta>\<bar> \<le> 90" "\<bar>lat + \<delta>\<bar> \<le> 90 + (- 0.833)"
    using assms \<delta> unfolding abs_le_iff by simp_all
  have h: "- 90 \<le> (- 0.833 :: real)" "(- 0.833 :: real) \<le> 0"
    by simp_all
  have a: "- 1 \<le> a" "a \<le> 1"
    unfolding a_def
    by (rule hour_arg_ge_minus_1 [OF b h r(2)], rule hour_arg_le_1 [OF b h r(1)])
  define u where "u = arccos a / (2 * pi)"
  have u: "0 \<le> u" "u \<le> 1 / 2"
    unfolding u_def using a by (intro arccos_frac; simp)+
  have g: "getTime (toRad (Fin lat)) (sun_dec (toDays (Date (Fin t))))
        (sun_Jnoon (toDays (Date (Fin t))) (toRad (- Fin lng))) (- Fin 0.833)
      = Some \<lparr>rise = Date (Fin (of_int \<lfloor>rise_ms j u\<rfloor>)),
              set' = Date (Fin (of_int \<lfloor>set_ms j u\<rfloor>))\<rparr>"
    unfolding toRad_Fin Fin_uminus dec noon u_def a_def
    using a j b unfolding a_def by (intro getTime_values)
  have "\<lfloor>rise_ms j u\<rfloor> < \<lfloor>set_ms j u\<rfloor>"
    using ms_range(5) [OF j u] by (rule floor_less_gap)
  then show ?thesis
    unfolding getTimes_fields g by simp
qed

lemma getTimes_twilight:
  assumes "- 180 \<le> lng" "lng \<le> 180" "- 48 \<le> lat" "lat \<le> 48"
  shows "populated (astronomicalDawn (getTimes (Date (Fin t)) (Fin lat) (Fin lng)))
    \<and> populated (astronomicalDusk (getTimes (Date (Fin t)) (Fin lat) (Fin lng)))
    \<and> before (astronomicalDawn (getTimes (Date (Fin t)) (Fin lat) (Fin lng)))
         (sunrise (getTimes (Date (Fin t)) (Fin lat) (Fin lng)))
    \<and> before (sunset (getTimes (Date (Fin t)) (Fin lat) (Fin lng)))
         (astronomicalDusk (getTimes (Date (Fin t)) (Fin lat) (Fin lng)))"
proof -
  obtain \<delta> where dec: "sun_dec (toDays (Date (Fin t))) = Fin (rad \<delta>)"
    and \<delta>: "- 23.45 \<le> \<delta>" "\<delta> \<le> 23.45"
    using sun_dec_bound unfolding toDays_Fin by blast
  obtain j where noon: "sun_Jnoon (toDays (Date (Fin t))) (Fin (rad (- lng))) = Fin j"
    and j: "\<bar>j - 2451545\<bar> \<le> 0.52"
    using sun_Jnoon_bound [OF assms(1,2)] unfolding toDays_Fin toRad_Fin Fin_uminus by blast
  have b: "- 90 < lat" "lat < 90" "- 90 < \<delta>" "\<delta> < 90"
    using assms \<delta> by simp_all
  define a where "a = hour_arg lat \<delta> (- 0.833)"
  define a' where "a' = hour_arg lat \<delta> (- 18)"
  have r: "\<bar>lat - \<delta>\<bar> \<le> 90" "\<bar>lat + \<delta>\<bar> \<le> 90 + (- 0.833)"
    using assms \<delta> unfolding abs_le_iff by simp_all
  have h: "- 90 \<le> (- 0.833 :: real)" "(- 0.833 :: real) \<le> 0"
    by simp_all
  have a: "- 1 \<le> a" "a \<le> 1"
    unfolding a_def
    by (rule hour_arg_ge_minus_1 [OF b h r(2)], rule hour_arg_le_1 [OF b h r(1)])
  have r': "\<bar>lat + \<delta>\<bar> \<le> 90 + (- 18)"
    using assms \<delta> unfolding abs_le_iff by simp_all
  have h': "- 90 \<le> (- 18 :: real)" "(- 18 :: real) \<le> 0"
    by simp_all
  have a': "- 1 \<le> a'" "a' \<le> 1"
    unfolding a'_def
    by (rule hour_arg_ge_minus_1 [OF b h' r'], rule hour_arg_le_1 [OF b h' r(1)])
  have gap: "a' + 1 / 8 \<le> a"
    using hour_arg_gap [OF b] by (simp add: a_def a'_def)
  define u where "u = arccos a / (2 * pi)"
  define u' where "u' = arccos a' / (2 * pi)"
  have u: "u + 1 / 64 \<le> u'"
    unfolding u_def u'_def using a' gap a by (intro arccos_frac_gap)
  have g: "getTime (toRad (Fin lat)) (sun_dec (toDays (Date (Fin t))))
        (sun_Jnoon (toDays (Date (Fin t))) (toRad (- Fin lng))) (- Fin 0.833)
      = Some \<lparr>rise = Date (Fin (of_int \<lfloor>rise_ms j u\<rfloor>)),
              set' = Date (Fin (of_int \<lfloor>set_ms j u\<rfloor>))\<rparr>"
    unfolding toRad_Fin Fin_uminus dec noon u_def a_def
    using a j b unfolding a_def by (intro getTime_values)
  have g': "getTime (toRad (Fin lat)) (sun_dec (toDays (Date (Fin t))))
        (sun_Jnoon (toDays (Date (Fin t))) (toRad (- Fin lng))) (- Fin 18)
      = Some \<lparr>rise = Date (Fin (of_int \<lfloor>rise_ms j u'\<rfloor>)),
              set' = Date (Fin (of_int \<lfloor>set_ms j u'\<rfloor>))\<rparr>"
    unfolding toRad_Fin Fin_uminus dec noon u'_def a'_def
    using a' j b unfolding a'_def by (intro getTime_values)
  have "\<lfloor>rise_ms j u'\<rfloor> < \<lfloor>rise_ms j u\<rfloor>" "\<lfloor>set_ms j u\<rfloor> < \<lfloor>set_ms j u'\<rfloor>"
    using ms_gap [OF u] by (intro floor_less_gap; simp)+
  then show ?thesis
    unfolding getTimes_fields g g' by simp
qed

section \<open>Rounding to double precision\<close>




















section \<open>Properties of the classifiers\<close>

text \<open>
  C5. \<open>conditionLabel\<close> applies its rules in order and the first rule that matches
  decides: the label is Excellent exactly when cloud \<open>\<le> 10\<close>, seeing \<open>\<ge> 7\<close> and
  transparency \<open>\<ge> 7\<close>; Good exactly when that rule fails and cloud \<open>\<le> 25\<close>, seeing
  \<open>\<ge> 5\<close> and transparency \<open>\<ge> 5\<close>; Fair exactly when both fail and cloud \<open>\<le> 50\<close>; Poor
  exactly when all three fail and cloud \<open>\<le> 75\<close>; Cloudy exactly when every rule fails.
  The input (10, 7, 7) is Excellent, and (11, 7, 7) is not Excellent (it is Good).
\<close>

theorem conditionLabel_priority:
  "(label (conditionLabel c s t) = ''Excellent'' \<longleftrightarrow>
      js_le c (Fin 10) \<and> js_ge s (Fin 7) \<and> js_ge t (Fin 7))
   \<and> (label (conditionLabel c s t) = ''Good'' \<longleftrightarrow>
      \<not> (js_le c (Fin 10) \<and> js_ge s (Fin 7) \<and> js_ge t (Fin 7))
      \<and> js_le c (Fin 25) \<and> js_ge s (Fin 5) \<and> js_ge t (Fin 5))
   \<and> (label (conditionLabel c s t) = ''Fair'' \<longleftrightarrow>
      \<not> (js_le c (Fin 10) \<and> js_ge s (Fin 7) \<and> js_ge t (Fin 7))
      \<and> \<not> (js_le c (Fin 25) \<and> js_ge s (Fin 5) \<and> js_ge t (Fin 5))
      \<and> js_le c (Fin 50))
   \<and> (label (conditionLabel c s t) = ''Poor'' \<longleftrightarrow>
      \<not> (js_le c (Fin 10) \<and> js_ge s (Fin 7) \<and> js_ge t (Fin 7))
      \<and> \<not> (js_le c (Fin 25) \<and> js_ge s (Fin 5) \<and> js_ge t (Fin 5))
      \<and> \<not> js_le c (Fin 50) \<and> js_le c (Fin 75))
   \<and> (label (conditionLabel c s t) = ''Cloudy'' \<longleftrightarrow>
      \<not> (js_le c (Fin 10) \<and> js_ge s (Fin 7) \<and> js_ge t (Fin 7))
      \<and> \<not> (js_le c (Fin 25) \<and> js_ge s (Fin 5) \<and> js_ge t (Fin 5))
      \<and> \<not> js_le c (Fin 50) \<and> \<not> js_le c (Fin 75))
   \<and> label (conditionLabel (Fin 10) (Fin 7) (Fin 7)) = ''Excellent''
   \<and> label (conditionLabel (Fin 11) (Fin 7) (Fin 7)) \<noteq> ''Excellent''
   \<and> label (conditionLabel (Fin 11) (Fin 7) (Fin 7)) = ''Good''"
  by (simp add: conditionLabel_def)

text \<open>
  C10. \<open>conditionLabel\<close> returns one of the five labels for every triple of Numbers,
  \<open>NaN\<close> and the infinities included; when the cloud cover is \<open>NaN\<close> every comparison
  is false and the result is the Cloudy record, whatever the other two arguments are.
\<close>

theorem conditionLabel_total_NaN:
  "label (conditionLabel c s t) \<in> {''Excellent'', ''Good'', ''Fair'', ''Poor'', ''Cloudy''}
   \<and> conditionLabel NaN s t = \<lparr>label = ''Cloudy'', color = ''#f07f7f'', icon = [0x25CF]\<rparr>"
  by (simp add: conditionLabel_def)

text \<open>
  C6. \<open>moonPhaseLabel\<close> sorts a finite phase \<open>p\<close> into eight buckets that do not
  overlap, each closed below and open above: New Moon for \<open>p < 0.03\<close> or \<open>p > 0.97\<close>,
  Waxing Crescent on \<open>[0.03, 0.22)\<close>, First Quarter on \<open>[0.22, 0.28)\<close>, Waxing Gibbous
  on \<open>[0.28, 0.47)\<close>, Full Moon on \<open>[0.47, 0.53)\<close>, Waning Gibbous on \<open>[0.53, 0.72)\<close>,
  Last Quarter on \<open>[0.72, 0.78)\<close> and Waning Crescent on the rest, \<open>[0.78, 0.97]\<close>. So
  every phase of \<open>[0, 1)\<close> has exactly one name; 0.50 is Full Moon and 0.53 is Waning
  Gibbous.
\<close>

theorem moonPhaseLabel_buckets:
  "(phase_label (moonPhaseLabel (Fin p)) = ''New Moon'' \<longleftrightarrow> p < 0.03 \<or> 0.97 < p)
   \<and> (phase_label (moonPhaseLabel (Fin p)) = ''Waxing Crescent'' \<longleftrightarrow> 0.03 \<le> p \<and> p < 0.22)
   \<and> (phase_label (moonPhaseLabel (Fin p)) = ''First Quarter'' \<longleftrightarrow> 0.22 \<le> p \<and> p < 0.28)
   \<and> (phase_label (moonPhaseLabel (Fin p)) = ''Waxing Gibbous'' \<longleftrightarrow> 0.28 \<le> p \<and> p < 0.47)
   \<and> (phase_label (moonPhaseLabel (Fin p)) = ''Full Moon'' \<longleftrightarrow> 0.47 \<le> p \<and> p < 0.53)
   \<and> (phase_label (moonPhaseLabel (Fin p)) = ''Waning Gibbous'' \<longleftrightarrow> 0.53 \<le> p \<and> p < 0.72)
   \<and> (phase_label (moonPhaseLabel (Fin p)) = ''Last Quarter'' \<longleftrightarrow> 0.72 \<le> p \<and> p < 0.78)
   \<and> (phase_label (moonPhaseLabel (Fin p)) = ''Waning Crescent'' \<longleftrightarrow> 0.78 \<le> p \<and> p \<le> 0.97)
   \<and> phase_label (moonPhaseLabel (Fin 0.50)) = ''Full Moon''
   \<and> phase_label (moonPhaseLabel (Fin 0.53)) = ''Waning Gibbous''"
  by (auto simp: moonPhaseLabel_def)

section \<open>Julian days\<close>





section \<open>Twilight times\<close>

text \<open>
  C9. For all Numbers \<open>date\<close>, \<open>lat\<close> and \<open>lng\<close> (finite or not) the four fields of
  the result of \<open>getTimes\<close> are present: the body of the \<open>try\<close> statement always
  completes, since \<open>Math.acos\<close> returns \<open>NaN\<close> outside \<open>[-1, 1]\<close> instead of
  throwing, so \<open>getTime\<close> never returns \<open>null\<close>. When the argument of the arc cosine
  for an elevation is outside \<open>[-1, 1]\<close>, the two fields of that elevation are invalid
  Dates (time value \<open>NaN\<close>); when this holds for both elevations, all four are.
\<close>

theorem getTimes_never_absent:
  "sunrise (getTimes date lat lng) \<noteq> None
   \<and> sunset (getTimes date lat lng) \<noteq> None
   \<and> astronomicalDawn (getTimes date lat lng) \<noteq> None
   \<and> astronomicalDusk (getTimes date lat lng) \<noteq> None
   \<and> (circumpolar (acos_arg (toRad lat) (sun_dec (toDays date)) (- Fin 0.833)) \<longrightarrow>
        sunrise (getTimes date lat lng) = Some (Date NaN)
        \<and> sunset (getTimes date lat lng) = Some (Date NaN))
   \<and> (circumpolar (acos_arg (toRad lat) (sun_dec (toDays date)) (- Fin 18)) \<longrightarrow>
        astronomicalDawn (getTimes date lat lng) = Some (Date NaN)
        \<and> astronomicalDusk (getTimes date lat lng) = Some (Date NaN))"
  by (simp add: getTimes_def Let_def getTime_Some getTime_circumpolar)

theorem getTimes_never_absent_witness:
  "circumpolar (acos_arg (toRad (Fin 89)) (sun_dec (toDays (Date (Fin 945864000000)))) (- Fin 0.833))
   \<and> circumpolar (acos_arg (toRad (Fin 89)) (sun_dec (toDays (Date (Fin 945864000000)))) (- Fin 18))
   \<and> sunrise (getTimes (Date (Fin 945864000000)) (Fin 89) (Fin 0)) = Some (Date NaN)
   \<and> sunset (getTimes (Date (Fin 945864000000)) (Fin 89) (Fin 0)) = Some (Date NaN)
   \<and> astronomicalDawn (getTimes (Date (Fin 945864000000)) (Fin 89) (Fin 0)) = Some (Date NaN)
   \<and> astronomicalDusk (getTimes (Date (Fin 945864000000)) (Fin 89) (Fin 0)) = Some (Date NaN)"
proof -
  have "toDays (Date (Fin 945864000000)) = Fin (- 10)"
    by simp
  then have d: "sun_dec (toDays (Date (Fin 945864000000))) = Fin (rad (- 23.45))"
    by (simp only: sun_dec_winter)
  have a: "circumpolar (acos_arg (toRad (Fin 89)) (sun_dec (toDays (Date (Fin 945864000000)))) (- Fin 0.833))"
    unfolding d toRad_Fin Fin_uminus by (rule circumpolar_above) simp_all
  have b: "circumpolar (acos_arg (toRad (Fin 89)) (sun_dec (toDays (Date (Fin 945864000000)))) (- Fin 18))"
    unfolding d toRad_Fin Fin_uminus by (rule circumpolar_above) simp_all
  show ?thesis
    using a b getTimes_never_absent [of "Date (Fin 945864000000)" "Fin 89" "Fin 0"]
    by blast
qed

text \<open>
  C1. At 2000-06-22T00:00:00Z and latitude 89 the sun does not set: the argument of the
  arc cosine for the elevation \<open>-0.833\<close> is below \<open>-1\<close>. The fields \<open>sunrise\<close> and
  \<open>sunset\<close> are then not absent: each is a Date object whose time value is \<open>NaN\<close>.
\<close>

theorem getTimes_midnight_sun:
  "circumpolar (acos_arg (toRad (Fin 89)) (sun_dec (toDays (Date (Fin 961632000000)))) (- Fin 0.833))
   \<and> sunrise (getTimes (Date (Fin 961632000000)) (Fin 89) (Fin 0)) = Some (Date NaN)
   \<and> sunset (getTimes (Date (Fin 961632000000)) (Fin 89) (Fin 0)) = Some (Date NaN)
   \<and> sunrise (getTimes (Date (Fin 961632000000)) (Fin 89) (Fin 0)) \<noteq> None
   \<and> sunset (getTimes (Date (Fin 961632000000)) (Fin 89) (Fin 0)) \<noteq> None"
proof -
  have "toDays (Date (Fin 961632000000)) = Fin 172.5"
    by simp
  then have d: "sun_dec (toDays (Date (Fin 961632000000))) = Fin (rad 23.45)"
    by (simp only: sun_dec_summer)
  have a: "circumpolar (acos_arg (toRad (Fin 89)) (sun_dec (toDays (Date (Fin 961632000000)))) (- Fin 0.833))"
    unfolding d toRad_Fin Fin_uminus by (rule circumpolar_below) simp_all
  then show ?thesis
    by (simp add: getTimes_def Let_def getTime_circumpolar)
qed

text \<open>
  C2, as stated, fails at latitude 60: at 2000-06-22T00:00:00Z the sun stays above
  \<open>-18\<close> degrees all night, and \<open>astronomicalDawn\<close> and \<open>astronomicalDusk\<close> are
  invalid Dates.
\<close>

theorem getTimes_lat_60_summer:
  "astronomicalDawn (getTimes (Date (Fin 961632000000)) (Fin 60) (Fin 0)) = Some (Date NaN)
   \<and> astronomicalDusk (getTimes (Date (Fin 961632000000)) (Fin 60) (Fin 0)) = Some (Date NaN)
   \<and> \<not> populated (astronomicalDawn (getTimes (Date (Fin 961632000000)) (Fin 60) (Fin 0)))
   \<and> \<not> populated (astronomicalDusk (getTimes (Date (Fin 961632000000)) (Fin 60) (Fin 0)))"
proof -
  have "toDays (Date (Fin 961632000000)) = Fin 172.5"
    by simp
  then have d: "sun_dec (toDays (Date (Fin 961632000000))) = Fin (rad 23.45)"
    by (simp only: sun_dec_summer)
  have a: "circumpolar (acos_arg (toRad (Fin 60)) (sun_dec (toDays (Date (Fin 961632000000)))) (- Fin 18))"
    unfolding d toRad_Fin Fin_uminus by (rule circumpolar_below) simp_all
  then show ?thesis
    by (simp add: getTimes_def Let_def getTime_circumpolar)
qed

text \<open>
  C2, amended. For every finite instant and every longitude in \<open>[-180, 180]\<close>: at a
  latitude in \<open>[-60, 60]\<close>, \<open>sunrise\<close> and \<open>sunset\<close> are valid instants and sunrise is
  before sunset; at a latitude in \<open>[-48, 48]\<close>, \<open>astronomicalDawn\<close> and
  \<open>astronomicalDusk\<close> are valid instants too, dawn is before sunrise and sunset is
  before dusk.
\<close>

theorem getTimes_ordered:
  assumes "- 180 \<le> lng" "lng \<le> 180"
  shows "(- 60 \<le> lat \<and> lat \<le> 60 \<longrightarrow>
      populated (sunrise (getTimes (Date (Fin t)) (Fin lat) (Fin lng)))
      \<and> populated (sunset (getTimes (Date (Fin t)) (Fin lat) (Fin lng)))
      \<and> before (sunrise (getTimes (Date (Fin t)) (Fin lat) (Fin lng)))
           (sunset (getTimes (Date (Fin t)) (Fin lat) (Fin lng))))
    \<and> (- 48 \<le> lat \<and> lat \<le> 48 \<longrightarrow>
      populated (astronomicalDawn (getTimes (Date (Fin t)) (Fin lat) (Fin lng)))
      \<and> populated (astronomicalDusk (getTimes (Date (Fin t)) (Fin lat) (Fin lng)))
      \<and> before (astronomicalDawn (getTimes (Date (Fin t)) (Fin lat) (Fin lng)))
           (sunrise (getTimes (Date (Fin t)) (Fin lat) (Fin lng)))
      \<and> before (sunset (getTimes (Date (Fin t)) (Fin lat) (Fin lng)))
           (astronomicalDusk (getTimes (Date (Fin t)) (Fin lat) (Fin lng))))"
  using getTimes_sun [OF assms, of lat t] getTimes_twilight [OF assms, of lat t] by blast

theorem getTimes_ordered_witness:
  "populated (sunrise (getTimes (Date (Fin 961632000000)) (Fin 48) (Fin 0)))
   \<and> populated (sunset (getTimes (Date (Fin 961632000000)) (Fin 48) (Fin 0)))
   \<and> before (sunrise (getTimes (Date (Fin 961632000000)) (Fin 48) (Fin 0)))
        (sunset (getTimes (Date (Fin 961632000000)) (Fin 48) (Fin 0)))
   \<and> populated (astronomicalDawn (getTimes (Date (Fin 961632000000)) (Fin 48) (Fin 0)))
   \<and> populated (astronomicalDusk (getTimes (Date (Fin 961632000000)) (Fin 48) (Fin 0)))
   \<and> before (astronomicalDawn (getTimes (Date (Fin 961632000000)) (Fin 48) (Fin 0)))
        (sunrise (getTimes (Date (Fin 961632000000)) (Fin 48) (Fin 0)))
   \<and> before (sunset (getTimes (Date (Fin 961632000000)) (Fin 48) (Fin 0)))
        (astronomicalDusk (getTimes (Date (Fin 961632000000)) (Fin 48) (Fin 0)))"
proof -
  have "- 180 \<le> (0 :: real)" "(0 :: real) \<le> 180"
    by simp_all
  from getTimes_ordered [OF this, of 48 961632000000] show ?thesis
    by simp
qed

section \<open>Moon illumination\<close>




section \<open>The reference epoch and the time zone of the host\<close>

text \<open>
  C4. The reference date of \<open>getMoonIllumination\<close> is 2000-01-01 12:00 of the host's
  local time. For the instant 2000-01-01T12:00:00Z the day count \<open>d\<close> is 0 on a host
  at UTC, but \<open>1 / 24\<close> on a host one hour east of UTC; \<open>toDays\<close> of \<open>getTimes\<close>,
  which counts from the same epoch in UTC, gives 0.
\<close>

theorem moon_d_local_epoch:
  "moon_d 0 (Date (Fin 946728000000)) = Fin 0
   \<and> moon_d 3600000 (Date (Fin 946728000000)) = Fin (1 / 24)
   \<and> toDays (Date (Fin 946728000000)) = Fin 0"
  by (simp add: moon_d_Fin)

text \<open>
  C8. \<open>getMoonIllumination\<close> reads the time zone of the host: for the same instant,
  2000-01-01T12:00:00Z, the result on a host at UTC and the result on a host one hour east
  of UTC differ, already in the field \<open>phase\<close>.
\<close>

theorem getMoonIllumination_reads_zone:
  "phase (getMoonIllumination 0 (Date (Fin 946728000000)))
   \<noteq> phase (getMoonIllumination 3600000 (Date (Fin 946728000000)))
   \<and> getMoonIllumination 0 (Date (Fin 946728000000))
   \<noteq> getMoonIllumination 3600000 (Date (Fin 946728000000))"
proof -
  have "phase (getMoonIllumination 0 (Date (Fin 946728000000)))
        \<noteq> phase (getMoonIllumination 3600000 (Date (Fin 946728000000)))"
    by (rule moon_phase_depends_on_zone) simp_all
  then show ?thesis
    by metis
qed

end
